theory Spec2Isabelle
  imports Complex_Main "HOL-Library.AList"
begin

section \<open>JavaScript values and objects\<close>

text \<open>
  The scalar values that attributes and labels carry. Numbers are only stored and
  tested for truthiness, never computed with, so \<open>int\<close> stands for them.
\<close>

datatype js_value = JUndefined | JNull | JBool bool | JNum int | JStr string

text \<open>JavaScript truthiness, as the operator \<^verbatim>\<open>!\<close> reads it.\<close>

fun truthy :: "js_value \<Rightarrow> bool" where
  "truthy JUndefined = False"
| "truthy JNull = False"
| "truthy (JBool b) = b"
| "truthy (JNum n) = (n \<noteq> 0)"
| "truthy (JStr s) = (s \<noteq> [])"

text \<open>
  A plain object is the list of its entries in insertion order. Assigning a property
  overwrites the entry in place when the key exists and appends it otherwise, which is
  what \<open>AList.update\<close> does; reading a missing property gives \<^verbatim>\<open>undefined\<close>.
\<close>

type_synonym 'v js_object = "(string \<times> 'v) list"

definition set_prop :: "string \<Rightarrow> 'v \<Rightarrow> 'v js_object \<Rightarrow> 'v js_object" where
  "set_prop k v obj = AList.update k v obj"

definition get_prop :: "js_value js_object \<Rightarrow> string \<Rightarrow> js_value" where
  "get_prop obj k = (case map_of obj k of None \<Rightarrow> JUndefined | Some v \<Rightarrow> v)"

text \<open>The spread \<^verbatim>\<open>{...target, ...src}\<close>: the entries of \<open>src\<close> assigned in order.\<close>

definition spread :: "'v js_object \<Rightarrow> 'v js_object \<Rightarrow> 'v js_object" where
  "spread target src = fold (\<lambda>(k, v). set_prop k v) src target"

definition object_keys :: "'v js_object \<Rightarrow> string list" where
  "object_keys obj = map fst obj"

text \<open>
  A thrown value. \<open>err_id\<close> is its identity; \<open>err_name\<close> and \<open>err_message\<close> are what
  \<^verbatim>\<open>err?.name\<close> and \<^verbatim>\<open>error?.message\<close> read, \<open>None\<close> when the thrown value has no
  such property (or is not an object at all).
\<close>

record js_error =
  err_id :: nat
  err_name :: "string option"
  err_message :: "string option"

section \<open>The tracing backend and the store\<close>

datatype span_context = SpanContext (traceId: nat) (spanId: nat)

datatype span = Span (spanContext: span_context)

datatype link = Link (link_context: span_context)

type_synonym ref = nat

text \<open>
  \<^verbatim>\<open>SpanOptions\<close>. In the store the field \<open>attributes\<close> is a reference to the attributes
  object (\<open>'a = ref\<close>); in what the tracer receives it is that object's content.
  The fields \<^verbatim>\<open>kind\<close> and \<^verbatim>\<open>startTime\<close> are passed through untouched and left out.
\<close>

record 'a span_options =
  attributes :: "'a option"
  root :: "bool option"
  links :: "link list option"

type_synonym attrs = "js_value js_object"

datatype status_code = StatusOK | StatusERROR

datatype callback = CbTraceOnlyIf | CbDynamicAttributes | CbOriginal

datatype event =
    Called callback
  | StartSpan string string "attrs span_options" span
  | SetStatus span status_code "string option"
  | RecordException span js_error
  | SpanEnd span

datatype tracing_mode = LegacyAlwaysPromise | NaturalSyncAsync

text \<open>
  Everything a call can read or change: the store of options and attributes objects,
  the ambient active span (\<^verbatim>\<open>trace.getSpan(context.active())\<close>), the identifier supply of
  the tracing backend, the log of calls made to the backend and to user callbacks, the
  caller file that \<^verbatim>\<open>getCallerFile()\<close> reports and the module variable \<^verbatim>\<open>mode\<close> of
  tracing-config.
\<close>

record world =
  optionsStore :: "ref \<rightharpoonup> ref span_options"
  attributesStore :: "ref \<rightharpoonup> attrs"
  nextRef :: ref
  activeSpan :: "span option"
  nextId :: nat
  traceLog :: "event list"
  callerFile :: string
  tracingMode :: tracing_mode

definition emit :: "event \<Rightarrow> world \<Rightarrow> world" where
  "emit e w = w\<lparr>traceLog := traceLog w @ [e]\<rparr>"

definition emptyOptions :: "ref span_options" where
  "emptyOptions = \<lparr>attributes = None, root = None, links = None\<rparr>"

definition readOptions :: "world \<Rightarrow> ref \<Rightarrow> ref span_options" where
  "readOptions w r = (case optionsStore w r of Some opts \<Rightarrow> opts | None \<Rightarrow> emptyOptions)"

definition readAttributes :: "world \<Rightarrow> ref \<Rightarrow> attrs" where
  "readAttributes w a = (case attributesStore w a of Some obj \<Rightarrow> obj | None \<Rightarrow> [])"

definition newAttributes :: "attrs \<Rightarrow> world \<Rightarrow> ref \<times> world" where
  "newAttributes obj w =
     (nextRef w, w\<lparr>attributesStore := (attributesStore w)(nextRef w \<mapsto> obj), nextRef := Suc (nextRef w)\<rparr>)"

definition newOptions :: "ref span_options \<Rightarrow> world \<Rightarrow> ref \<times> world" where
  "newOptions opts w =
     (nextRef w, w\<lparr>optionsStore := (optionsStore w)(nextRef w \<mapsto> opts), nextRef := Suc (nextRef w)\<rparr>)"

text \<open>What the tracer sees of an options object at the moment of the call.\<close>

definition snapshot :: "ref span_options \<Rightarrow> world \<Rightarrow> attrs span_options" where
  "snapshot opts w =
     \<lparr>attributes = (case attributes opts of None \<Rightarrow> None | Some a \<Rightarrow> attributesStore w a),
      root = root opts, links = links opts\<rparr>"

text \<open>
  \<^verbatim>\<open>tracer.startSpan(name, options)\<close> of the tracing backend, an external collaborator. Its
  contract: the call is recorded with the options it received; the new span gets a fresh
  span id; it joins the trace of the active span unless \<^verbatim>\<open>options.root\<close> is set or no span
  is active, in which case it gets a fresh trace id.
\<close>

definition startSpan :: "string \<Rightarrow> string \<Rightarrow> ref span_options \<Rightarrow> world \<Rightarrow> span \<times> world" where
  "startSpan tracer name opts w =
     (let parent = (if root opts = Some True then None else activeSpan w);
          tid = (case parent of None \<Rightarrow> nextId w | Some p \<Rightarrow> traceId (spanContext p));
          s = Span (SpanContext tid (Suc (nextId w)))
      in (s, emit (StartSpan tracer name (snapshot opts w) s) (w\<lparr>nextId := nextId w + 2\<rparr>)))"

section \<open>Traces: the span start-mode resolver\<close>

datatype StartMode = Reuse | CreateChild | NewTrace | NewTraceWithLink

definition samplingKey :: string where
  "samplingKey = ''otel.collector.sampling.keep''"

text \<open>
  \<^verbatim>\<open>Traces._setSamplingRule\<close>. The argument is a reference to the caller's options object,
  or \<open>None\<close> for \<^verbatim>\<open>undefined\<close>; the result is the reference the rule returns. Its three
  statements are the three steps below.
\<close>

text \<open>\<^verbatim>\<open>if (!spanOption) spanOption = { attributes: {} }\<close>\<close>

definition ensureOptions :: "ref option \<Rightarrow> world \<Rightarrow> ref \<times> world" where
  "ensureOptions spanOption w =
     (case spanOption of
        None \<Rightarrow> (let (a, wa) = newAttributes [] w
                 in newOptions (emptyOptions\<lparr>attributes := Some a\<rparr>) wa)
      | Some r \<Rightarrow> (r, w))"

text \<open>\<^verbatim>\<open>if (!spanOption.attributes) spanOption.attributes = {}\<close>\<close>

definition ensureAttributes :: "ref \<Rightarrow> world \<Rightarrow> ref \<times> world" where
  "ensureAttributes r w =
     (case attributes (readOptions w r) of
        None \<Rightarrow> (let (a, wa) = newAttributes [] w
                 in (a, wa\<lparr>optionsStore :=
                          (optionsStore wa)(r \<mapsto> (readOptions wa r)\<lparr>attributes := Some a\<rparr>)\<rparr>))
      | Some a \<Rightarrow> (a, w))"

text \<open>
  \<^verbatim>\<open>if (!spanOption.attributes[key]) spanOption.attributes[key] = false\<close>
\<close>

definition defaultSampling :: "ref \<Rightarrow> world \<Rightarrow> world" where
  "defaultSampling a w =
     (if \<not> truthy (get_prop (readAttributes w a) samplingKey)
      then w\<lparr>attributesStore :=
               (attributesStore w)(a \<mapsto> set_prop samplingKey (JBool False) (readAttributes w a))\<rparr>
      else w)"

definition setSamplingRule :: "ref option \<Rightarrow> world \<Rightarrow> ref \<times> world" where
  "setSamplingRule spanOption w =
     (let (r, w1) = ensureOptions spanOption w;
          (a, w2) = ensureAttributes r w1
      in (r, defaultSampling a w2))"

text \<open>\<^verbatim>\<open>Traces.getCurrentSpan\<close>.\<close>

definition getCurrentSpan :: "world \<Rightarrow> span option" where
  "getCurrentSpan w = activeSpan w"

text \<open>
  \<^verbatim>\<open>Traces.getCurrentSpanOrCreateNew(spanName, options, createNewSpan, moduleName)\<close>; the
  defaults of the last two parameters are \<^verbatim>\<open>false\<close> and \<^verbatim>\<open>getCallerFile()\<close>.
\<close>

definition getCurrentSpanOrCreateNew ::
  "string \<Rightarrow> ref option \<Rightarrow> bool option \<Rightarrow> string option \<Rightarrow> world \<Rightarrow> (span \<times> bool) \<times> world" where
  "getCurrentSpanOrCreateNew spanName options createNewSpan moduleName w =
     (let create = (case createNewSpan of None \<Rightarrow> False | Some b \<Rightarrow> b);
          tracerName = (case moduleName of None \<Rightarrow> callerFile w | Some m \<Rightarrow> m);
          (opts, w1) = setSamplingRule options w
      in case activeSpan w of
           Some s \<Rightarrow>
             (if create
              then (let (s', w2) = startSpan tracerName spanName (readOptions w1 opts) w1
                    in ((s', True), w2))
              else ((s, False), w1))
         | None \<Rightarrow>
             (let (s', w2) = startSpan tracerName spanName (readOptions w1 opts) w1
              in ((s', True), w2)))"

text \<open>
  \<^verbatim>\<open>Traces.getSpan(spanName, options, mode, moduleName)\<close>; the defaults of the last two
  parameters are \<^verbatim>\<open>'reuse'\<close> and \<^verbatim>\<open>getCallerFile()\<close>. The result is the pair
  \<^verbatim>\<open>{ span, createdSpan }\<close>.
\<close>

definition getSpan ::
  "string \<Rightarrow> ref option \<Rightarrow> StartMode option \<Rightarrow> string option \<Rightarrow> world \<Rightarrow> (span \<times> bool) \<times> world" where
  "getSpan spanName options mode moduleName w =
     (let m = (case mode of None \<Rightarrow> Reuse | Some m \<Rightarrow> m);
          tracerName = (case moduleName of None \<Rightarrow> callerFile w | Some n \<Rightarrow> n);
          (opts, w1) = setSamplingRule options w
      in if m = Reuse \<and> activeSpan w1 \<noteq> None then ((the (activeSpan w1), False), w1)
         else if m = NewTrace then
           (let (s, w2) = startSpan tracerName spanName ((readOptions w1 opts)\<lparr>root := Some True\<rparr>) w1
            in ((s, True), w2))
         else if m = NewTraceWithLink then
           (case activeSpan w1 of
              Some active \<Rightarrow>
                (let (s, w2) = startSpan tracerName spanName
                                 ((readOptions w1 opts)\<lparr>root := Some True,
                                                         links := Some [Link (spanContext active)]\<rparr>) w1
                 in ((s, True), w2))
            | None \<Rightarrow>
                (let (s, w2) = startSpan tracerName spanName ((readOptions w1 opts)\<lparr>root := Some True\<rparr>) w1
                 in ((s, True), w2)))
         else (let (s, w2) = startSpan tracerName spanName (readOptions w1 opts) w1
               in ((s, True), w2)))"

section \<open>Results of callables and deferred values\<close>

text \<open>
  What the original callable does when applied: it throws, or it returns either an
  immediate value or a promise. A promise is given by how it eventually settles;
  \<open>Pending\<close> is the promise that never settles. The deferred results a callable
  returns are native promises, for which the test \<^verbatim>\<open>typeof result.then === 'function'\<close>
  of the tracing wrapper and the test \<^verbatim>\<open>res instanceof Promise\<close> of the metrics wrappers
  agree.
\<close>

datatype 'v settlement = Fulfilled 'v | Rejected js_error | Pending

datatype 'v js_result = Plain 'v | Promise "'v settlement"

datatype 'v completion = Returns "'v js_result" | Throws js_error

text \<open>
  The callable sees its arguments and the span that is active while it runs; its own
  effects on the world are not followed.
\<close>

record ('a, 'v) callable =
  fn_name :: string
  fn_apply :: "'a \<Rightarrow> span option \<Rightarrow> 'v completion"

text \<open>
  A promise handed out by a wrapper is the computation that runs, on the state of that
  later moment, when the original promise settles: it yields the settlement the caller
  observes together with the state in which the caller observes it.
\<close>

type_synonym ('s, 'v) promise = "'s \<Rightarrow> 'v settlement \<times> 's"

datatype ('s, 'v) wrapped_value = Value 'v | Deferred "('s, 'v) promise"

datatype ('s, 'v) outcome = Returned "('s, 'v) wrapped_value" | Raised js_error

definition settled :: "'v settlement \<Rightarrow> ('s, 'v) promise" where
  "settled st = (\<lambda>s. (st, s))"

text \<open>\<^verbatim>\<open>p.then(f)\<close>, \<^verbatim>\<open>p.catch(g)\<close> and \<^verbatim>\<open>p.finally(h)\<close>.\<close>

definition then_p :: "('s, 'v) promise \<Rightarrow> ('v \<Rightarrow> ('s, 'v) promise) \<Rightarrow> ('s, 'v) promise" where
  "then_p p f = (\<lambda>s. case p s of
                      (Fulfilled v, s1) \<Rightarrow> f v s1
                    | (Rejected e, s1) \<Rightarrow> (Rejected e, s1)
                    | (Pending, s1) \<Rightarrow> (Pending, s1))"

definition catch_p :: "('s, 'v) promise \<Rightarrow> (js_error \<Rightarrow> ('s, 'v) promise) \<Rightarrow> ('s, 'v) promise" where
  "catch_p p g = (\<lambda>s. case p s of
                       (Fulfilled v, s1) \<Rightarrow> (Fulfilled v, s1)
                     | (Rejected e, s1) \<Rightarrow> g e s1
                     | (Pending, s1) \<Rightarrow> (Pending, s1))"

definition finally_p :: "('s, 'v) promise \<Rightarrow> ('s \<Rightarrow> 's) \<Rightarrow> ('s, 'v) promise" where
  "finally_p p h = (\<lambda>s. case p s of
                         (Fulfilled v, s1) \<Rightarrow> (Fulfilled v, h s1)
                       | (Rejected e, s1) \<Rightarrow> (Rejected e, h s1)
                       | (Pending, s1) \<Rightarrow> (Pending, s1))"

text \<open>
  A promise chain whose handlers close over a local variable runs on the pair of that
  variable and the state; the caller sees the state only.
\<close>

definition with_local :: "'l \<Rightarrow> ('l \<times> 's, 'v) promise \<Rightarrow> ('s, 'v) promise" where
  "with_local l p = (\<lambda>s. case p (l, s) of (st, (l', s')) \<Rightarrow> (st, s'))"

text \<open>\<^verbatim>\<open>Promise.resolve(res)\<close> and \<^verbatim>\<open>Promise.reject(error)\<close>.\<close>

definition promiseResolve :: "'v js_result \<Rightarrow> ('s, 'v) wrapped_value" where
  "promiseResolve res = (case res of Plain v \<Rightarrow> Deferred (settled (Fulfilled v))
                                   | Promise st \<Rightarrow> Deferred (settled st))"

definition promiseReject :: "js_error \<Rightarrow> ('s, 'v) wrapped_value" where
  "promiseReject error = Deferred (settled (Rejected error))"

text \<open>A result handed back as it is.\<close>

definition asReturned :: "'v js_result \<Rightarrow> ('s, 'v) wrapped_value" where
  "asReturned res = (case res of Plain v \<Rightarrow> Value v | Promise st \<Rightarrow> Deferred (settled st))"

section \<open>Traces.withTracing\<close>

text \<open>\<^verbatim>\<open>traceOnlyIf\<close>: a boolean, or a predicate on the arguments and the current span.\<close>

datatype 'a gating = GateBool bool | GateFn "'a \<Rightarrow> span option \<Rightarrow> bool"

text \<open>
  \<^verbatim>\<open>TraceDecoratorOptions\<close>; \<open>None\<close> is an option left out. The callbacks of the options
  (the gating predicate, the dynamic attributes and, for metrics, the dynamic labels) are
  functions that return: one that throws makes the call fail before the wrapper has
  touched a span or a metric. The receiver \<^verbatim>\<open>this\<close> is passed through and left out.
\<close>

record 'a TraceDecoratorOptions =
  spanName :: "string option"
  staticAttributes :: "attrs option"
  dynamicAttributes :: "('a \<Rightarrow> attrs) option"
  moduleName :: "string option"
  startMode :: "StartMode option"
  traceOnlyIf :: "'a gating option"
  createNewSpan :: "bool option"

text \<open>
  The closure \<^verbatim>\<open>endSpan\<close> with its captured variable \<^verbatim>\<open>spanEnded\<close>, the first component
  of the state.
\<close>

definition endSpan :: "span \<Rightarrow> bool \<Rightarrow> bool \<times> world \<Rightarrow> bool \<times> world" where
  "endSpan sp createdSpan = (\<lambda>(spanEnded, w).
     if \<not> spanEnded \<and> createdSpan then (True, emit (SpanEnd sp) w) else (spanEnded, w))"

definition onFulfilled :: "span \<Rightarrow> 'v \<Rightarrow> (bool \<times> world, 'v) promise" where
  "onFulfilled sp res = (\<lambda>(spanEnded, w).
     (Fulfilled res, (spanEnded, emit (SetStatus sp StatusOK None) w)))"

definition onRejected :: "span \<Rightarrow> js_error \<Rightarrow> (bool \<times> world, 'v) promise" where
  "onRejected sp error = (\<lambda>(spanEnded, w).
     (Rejected error,
      (spanEnded, emit (RecordException sp error) (emit (SetStatus sp StatusERROR (err_message error)) w))))"

text \<open>
  The \<^verbatim>\<open>try\<close>/\<^verbatim>\<open>catch\<close> block of the wrapper, from the span \<open>sp\<close> and the flag that
  \<^verbatim>\<open>Traces.getSpan\<close> returned. The callable runs with that span active
  (\<^verbatim>\<open>context.with(trace.setSpan(context.active(), span), ...)\<close>).
\<close>

definition tracedCall ::
  "('a, 'v) callable \<Rightarrow> bool \<Rightarrow> span \<Rightarrow> bool \<Rightarrow> 'a \<Rightarrow> world \<Rightarrow> (world, 'v) outcome \<times> world" where
  "tracedCall fn coerceToPromise sp createdSpan args w =
     (let w1 = emit (Called CbOriginal) w
      in case fn_apply fn args (Some sp) of
           Returns (Promise st) \<Rightarrow>
             (Returned (Deferred (with_local False
                (finally_p (catch_p (then_p (settled st) (onFulfilled sp)) (onRejected sp))
                           (endSpan sp createdSpan)))), w1)
         | Returns (Plain result) \<Rightarrow>
             (let (spanEnded, w2) = endSpan sp createdSpan (False, emit (SetStatus sp StatusOK None) w1)
              in (Returned (if coerceToPromise then promiseResolve (Plain result) else Value result), w2))
         | Throws error \<Rightarrow>
             (let (spanEnded, w2) =
                    endSpan sp createdSpan
                      (False, emit (RecordException sp error)
                                (emit (SetStatus sp StatusERROR (err_message error)) w1))
              in (if coerceToPromise then Returned (promiseReject error) else Raised error, w2)))"

text \<open>
  The span options a traced call builds: the static attributes, then the dynamic ones,
  then \<^verbatim>\<open>function.name\<close> when the callable has a name, in a new attributes object inside
  a new options object.
\<close>

definition buildSpanOptions ::
  "('a, 'v) callable \<Rightarrow> 'a TraceDecoratorOptions \<Rightarrow> 'a \<Rightarrow> world \<Rightarrow> ref \<times> world" where
  "buildSpanOptions fn options args w =
     (let attributes' = (case staticAttributes options of Some a \<Rightarrow> a | None \<Rightarrow> []);
          (dyn, wd) = (case dynamicAttributes options of
                         Some f \<Rightarrow> (f args, emit (Called CbDynamicAttributes) w)
                       | None \<Rightarrow> ([], w));
          (a, w1) = newAttributes
                      (spread (spread (spread [] attributes') dyn)
                         (if fn_name fn \<noteq> [] then [(''function.name'', JStr (fn_name fn))] else []))
                      wd
      in newOptions (emptyOptions\<lparr>attributes := Some a\<rparr>) w1)"

text \<open>
  \<^verbatim>\<open>Traces.withTracing(fn, options)\<close>, evaluated in the world \<open>w0\<close>: the option defaults and
  the tracing mode are read there, once. The result is the wrapped function, which is
  called later with its arguments in the world of the call.
\<close>

definition withTracing ::
  "('a, 'v) callable \<Rightarrow> 'a TraceDecoratorOptions \<Rightarrow> world \<Rightarrow> 'a \<Rightarrow> world \<Rightarrow> (world, 'v) outcome \<times> world" where
  "withTracing fn options w0 =
     (let spanName' = (case spanName options of
                         Some n \<Rightarrow> n
                       | None \<Rightarrow> if fn_name fn \<noteq> [] then fn_name fn else ''anonymous'');
          startMode' = (case startMode options of
                          Some m \<Rightarrow> m
                        | None \<Rightarrow> if createNewSpan options = Some True then CreateChild else Reuse);
          traceOnlyIf' = (case traceOnlyIf options of Some g \<Rightarrow> g | None \<Rightarrow> GateBool True);
          moduleName' = (case moduleName options of Some m \<Rightarrow> m | None \<Rightarrow> callerFile w0);
          coerceToPromise = (tracingMode w0 = LegacyAlwaysPromise)
      in (\<lambda>args w.
           let currentSpan = getCurrentSpan w;
               (shouldTrace, wg) = (case traceOnlyIf' of
                                      GateFn p \<Rightarrow> (p args currentSpan, emit (Called CbTraceOnlyIf) w)
                                    | GateBool b \<Rightarrow> (b, w))
           in if \<not> shouldTrace then
                (case fn_apply fn args (activeSpan wg) of
                   Throws error \<Rightarrow> (Raised error, emit (Called CbOriginal) wg)
                 | Returns res \<Rightarrow>
                     (Returned (if coerceToPromise then promiseResolve res else asReturned res),
                      emit (Called CbOriginal) wg))
              else
                (let (spanOptions, w2) = buildSpanOptions fn options args wg;
                     ((sp, createdSpan), w3) =
                        getSpan spanName' (Some spanOptions) (Some startMode') (Some moduleName') w2
                 in tracedCall fn coerceToPromise sp createdSpan args w3)))"

section \<open>Metrics: registration, lazy creation and label governance\<close>

type_synonym labels = "js_value js_object"

datatype metric_kind = Counter | Gauge | Histogram | Summary

text \<open>
  A prom-client configuration as the class uses it; \<open>cfg_collect\<close> says whether a
  \<^verbatim>\<open>collect\<close> function is configured.
\<close>

record metric_config =
  cfg_name :: string
  cfg_help :: string
  cfg_labelNames :: "string list option"
  cfg_collect :: bool
  cfg_buckets :: "real list option"
  cfg_percentiles :: "real list option"

text \<open>
  The calls a metric object of the backend receives. A call made without a label
  argument (\<^verbatim>\<open>counter.inc(value)\<close>) is recorded with the empty label set. A timer is
  recorded where it is started and where it is stopped; the elapsed time is not modelled.
  A call is recorded as it is made: the checks the backend itself runs on a call are
  outside this model.
\<close>

datatype metric_call =
    Inc labels "int option"
  | SetTo labels int
  | Observe labels int
  | StartTimer labels
  | StopTimer labels

record metric_instance =
  kind :: metric_kind
  labelNames :: "string list"
  calls :: "metric_call list"

text \<open>
  The static maps of the class \<^verbatim>\<open>Metrics\<close>, the global \<^verbatim>\<open>register\<close> of the backend, and
  the store of metric objects that the maps and the register refer to.
\<close>

record metrics_state =
  counterConfigs :: "string \<rightharpoonup> metric_config"
  gaugeConfigs :: "string \<rightharpoonup> metric_config"
  histogramConfigs :: "string \<rightharpoonup> metric_config"
  summaryConfigs :: "string \<rightharpoonup> metric_config"
  counters :: "string \<rightharpoonup> ref"
  gauges :: "string \<rightharpoonup> ref"
  histograms :: "string \<rightharpoonup> ref"
  summaries :: "string \<rightharpoonup> ref"
  register :: "string \<rightharpoonup> ref"
  metricStore :: "ref \<rightharpoonup> metric_instance"
  nextMetric :: ref


text \<open>The instance map and the configuration map of each kind.\<close>

fun instancesOf :: "metric_kind \<Rightarrow> metrics_state \<Rightarrow> (string \<rightharpoonup> ref)" where
  "instancesOf Counter s = counters s"
| "instancesOf Gauge s = gauges s"
| "instancesOf Histogram s = histograms s"
| "instancesOf Summary s = summaries s"

fun configsOf :: "metric_kind \<Rightarrow> metrics_state \<Rightarrow> (string \<rightharpoonup> metric_config)" where
  "configsOf Counter s = counterConfigs s"
| "configsOf Gauge s = gaugeConfigs s"
| "configsOf Histogram s = histogramConfigs s"
| "configsOf Summary s = summaryConfigs s"

fun setInstance :: "metric_kind \<Rightarrow> string \<Rightarrow> ref \<Rightarrow> metrics_state \<Rightarrow> metrics_state" where
  "setInstance Counter n r s = s\<lparr>counters := (counters s)(n \<mapsto> r)\<rparr>"
| "setInstance Gauge n r s = s\<lparr>gauges := (gauges s)(n \<mapsto> r)\<rparr>"
| "setInstance Histogram n r s = s\<lparr>histograms := (histograms s)(n \<mapsto> r)\<rparr>"
| "setInstance Summary n r s = s\<lparr>summaries := (summaries s)(n \<mapsto> r)\<rparr>"

fun setConfig :: "metric_kind \<Rightarrow> string \<Rightarrow> metric_config \<Rightarrow> metrics_state \<Rightarrow> metrics_state" where
  "setConfig Counter n c s = s\<lparr>counterConfigs := (counterConfigs s)(n \<mapsto> c)\<rparr>"
| "setConfig Gauge n c s = s\<lparr>gaugeConfigs := (gaugeConfigs s)(n \<mapsto> c)\<rparr>"
| "setConfig Histogram n c s = s\<lparr>histogramConfigs := (histogramConfigs s)(n \<mapsto> c)\<rparr>"
| "setConfig Summary n c s = s\<lparr>summaryConfigs := (summaryConfigs s)(n \<mapsto> c)\<rparr>"

text \<open>
  \<^verbatim>\<open>new Counter(config)\<close> and its siblings: the backend creates the metric object with the
  configured label names and enters it in the global register under its name.
\<close>

definition newMetric :: "metric_kind \<Rightarrow> metric_config \<Rightarrow> metrics_state \<Rightarrow> ref \<times> metrics_state" where
  "newMetric k cfg s =
     (nextMetric s,
      s\<lparr>metricStore := (metricStore s)(nextMetric s \<mapsto>
           \<lparr>kind = k,
            labelNames = (case cfg_labelNames cfg of None \<Rightarrow> [] | Some names \<Rightarrow> names),
            calls = []\<rparr>),
        register := (register s)(cfg_name cfg \<mapsto> nextMetric s),
        nextMetric := Suc (nextMetric s)\<rparr>)"

text \<open>A call on the metric object behind a reference.\<close>

definition recordCall :: "ref \<Rightarrow> metric_call \<Rightarrow> metrics_state \<Rightarrow> metrics_state" where
  "recordCall r c s =
     (case metricStore s r of
        None \<Rightarrow> s
      | Some inst \<Rightarrow> s\<lparr>metricStore := (metricStore s)(r \<mapsto> inst\<lparr>calls := calls inst @ [c]\<rparr>)\<rparr>)"

text \<open>\<^verbatim>\<open>Metrics.clear\<close>.\<close>

definition clear :: "metrics_state \<Rightarrow> metrics_state" where
  "clear s = s\<lparr>register := Map.empty, counters := Map.empty, gauges := Map.empty,
               histograms := Map.empty\<rparr>"

definition defaultBuckets :: "real list" where
  "defaultBuckets = [0.005, 0.01, 0.025, 0.05, 0.1, 0.25, 0.5, 1, 2.5, 5, 10]"

definition defaultPercentiles :: "real list" where
  "defaultPercentiles = [0.5, 0.9, 0.95, 0.99]"

text \<open>
  The defaults a registration fills in: \<^verbatim>\<open>labelNames\<close> for every kind, \<^verbatim>\<open>buckets\<close> for a
  histogram, \<^verbatim>\<open>percentiles\<close> for a summary.
\<close>

fun kindDefaults :: "metric_kind \<Rightarrow> metric_config \<Rightarrow> metric_config" where
  "kindDefaults Histogram cfg =
     (if cfg_buckets cfg = None then cfg\<lparr>cfg_buckets := Some defaultBuckets\<rparr> else cfg)"
| "kindDefaults Summary cfg =
     (if cfg_percentiles cfg = None then cfg\<lparr>cfg_percentiles := Some defaultPercentiles\<rparr> else cfg)"
| "kindDefaults k cfg = cfg"

text \<open>
  \<^verbatim>\<open>registerCounter\<close>, \<^verbatim>\<open>registerGauge\<close>, \<^verbatim>\<open>registerHistogram\<close> and \<^verbatim>\<open>registerSummary\<close>
  are the same function up to the kind.
\<close>

definition registerMetric :: "metric_kind \<Rightarrow> metric_config \<Rightarrow> metrics_state \<Rightarrow> metrics_state" where
  "registerMetric k config s =
     (let c1 = (if cfg_labelNames config = None then config\<lparr>cfg_labelNames := Some []\<rparr> else config);
          c2 = kindDefaults k c1
      in if cfg_collect c2
         then (let (r, s1) = newMetric k c2 s in setInstance k (cfg_name c2) r s1)
         else setConfig k (cfg_name c2) c2 s)"


definition registerGauge :: "metric_config \<Rightarrow> metrics_state \<Rightarrow> metrics_state" where
  "registerGauge = registerMetric Gauge"

definition registerHistogram :: "metric_config \<Rightarrow> metrics_state \<Rightarrow> metrics_state" where
  "registerHistogram = registerMetric Histogram"

definition registerSummary :: "metric_config \<Rightarrow> metrics_state \<Rightarrow> metrics_state" where
  "registerSummary = registerMetric Summary"

text \<open>
  \<^verbatim>\<open>getCounter\<close>, \<^verbatim>\<open>getGauge\<close>, \<^verbatim>\<open>getHistogram\<close> and \<^verbatim>\<open>getSummary\<close>: the instance of that
  name, created from its registered configuration when there is none yet.
\<close>

definition getMetric :: "metric_kind \<Rightarrow> string \<Rightarrow> metrics_state \<Rightarrow> ref option \<times> metrics_state" where
  "getMetric k metricName s =
     (let s1 = (if instancesOf k s metricName = None
                then (case configsOf k s metricName of
                        Some config \<Rightarrow> (let (r, s') = newMetric k config s in setInstance k metricName r s')
                      | None \<Rightarrow> s)
                else s)
      in (instancesOf k s1 metricName, s1))"

definition getCounter :: "string \<Rightarrow> metrics_state \<Rightarrow> ref option \<times> metrics_state" where
  "getCounter = getMetric Counter"

definition getGauge :: "string \<Rightarrow> metrics_state \<Rightarrow> ref option \<times> metrics_state" where
  "getGauge = getMetric Gauge"

definition getHistogram :: "string \<Rightarrow> metrics_state \<Rightarrow> ref option \<times> metrics_state" where
  "getHistogram = getMetric Histogram"

definition getSummary :: "string \<Rightarrow> metrics_state \<Rightarrow> ref option \<times> metrics_state" where
  "getSummary = getMetric Summary"





text \<open>
  \<^verbatim>\<open>_ensureCounterWithLabels\<close> and its three siblings. A registered configuration whose
  label names are missing or empty gets the keys of the labels of this first write, and
  the configuration kept in the map is the object that is changed. The histogram and
  summary variants fill in their default ladder first; \<open>kindDefaults\<close> leaves a counter
  or gauge configuration as it is.
\<close>

definition ensureWithLabels ::
  "metric_kind \<Rightarrow> string \<Rightarrow> labels \<Rightarrow> metrics_state \<Rightarrow> ref option \<times> metrics_state" where
  "ensureWithLabels k metricName ls s =
     (case instancesOf k s metricName of
        Some c \<Rightarrow> (Some c, s)
      | None \<Rightarrow>
          (case configsOf k s metricName of
             None \<Rightarrow> (None, s)
           | Some cfg \<Rightarrow>
               (let c1 = kindDefaults k cfg;
                    c2 = (if cfg_labelNames c1 = None \<or> cfg_labelNames c1 = Some []
                          then c1\<lparr>cfg_labelNames :=
                                   Some (filter (\<lambda>key. get_prop ls key \<noteq> JUndefined) (object_keys ls))\<rparr>
                          else c1);
                    (r, s1) = newMetric k c2 (setConfig k metricName c2 s)
                in (Some r, setInstance k metricName r s1))))"

definition ensureCounterWithLabels :: "string \<Rightarrow> labels \<Rightarrow> metrics_state \<Rightarrow> ref option \<times> metrics_state" where
  "ensureCounterWithLabels = ensureWithLabels Counter"

definition ensureGaugeWithLabels :: "string \<Rightarrow> labels \<Rightarrow> metrics_state \<Rightarrow> ref option \<times> metrics_state" where
  "ensureGaugeWithLabels = ensureWithLabels Gauge"

definition ensureHistogramWithLabels :: "string \<Rightarrow> labels \<Rightarrow> metrics_state \<Rightarrow> ref option \<times> metrics_state" where
  "ensureHistogramWithLabels = ensureWithLabels Histogram"

definition ensureSummaryWithLabels :: "string \<Rightarrow> labels \<Rightarrow> metrics_state \<Rightarrow> ref option \<times> metrics_state" where
  "ensureSummaryWithLabels = ensureWithLabels Summary"

text \<open>The label names of the metric object behind a reference (\<^verbatim>\<open>metric?.labelNames\<close>).\<close>

definition labelNamesOf :: "metrics_state \<Rightarrow> ref \<Rightarrow> string list" where
  "labelNamesOf s r = (case metricStore s r of None \<Rightarrow> [] | Some inst \<Rightarrow> labelNames inst)"








section \<open>Metrics: the counter decorator\<close>

text \<open>\<^verbatim>\<open>MetricDecoratorOptions\<close>.\<close>

record 'a MetricDecoratorOptions =
  metricName :: string
  helpText :: string
  staticLabels :: "labels option"
  dynamicLabels :: "('a \<Rightarrow> labels) option"









section \<open>Metrics: the histogram decorator\<close>






text \<open>The calls received so far by the metric object behind a reference.\<close>

definition callsOf :: "metrics_state \<Rightarrow> ref \<Rightarrow> metric_call list" where
  "callsOf s r = (case metricStore s r of None \<Rightarrow> [] | Some inst \<Rightarrow> calls inst)"

definition initialMetrics :: metrics_state where
  "initialMetrics =
     \<lparr>counterConfigs = Map.empty, gaugeConfigs = Map.empty, histogramConfigs = Map.empty,
      summaryConfigs = Map.empty, counters = Map.empty, gauges = Map.empty,
      histograms = Map.empty, summaries = Map.empty, register = Map.empty,
      metricStore = Map.empty, nextMetric = 0\<rparr>"

section \<open>Reading the log\<close>

text \<open>The events a step added to the log.\<close>

definition newEvents :: "world \<Rightarrow> world \<Rightarrow> event list" where
  "newEvents w w' = drop (length (traceLog w)) (traceLog w')"

fun isSpanEnd :: "event \<Rightarrow> bool" where
  "isSpanEnd (SpanEnd s) = True"
| "isSpanEnd e = False"

fun isSettleEffect :: "event \<Rightarrow> bool" where
  "isSettleEffect (SetStatus s c m) = True"
| "isSettleEffect (RecordException s e) = True"
| "isSettleEffect e = False"

text \<open>
  The events of one invocation: those of the call itself, from the world \<open>w\<close> it was
  made in, and, when the call returned a promise, those of its settlement in the later
  world \<open>w'\<close>.
\<close>

definition settlementEvents :: "(world, 'v) outcome \<Rightarrow> world \<Rightarrow> event list" where
  "settlementEvents out w' =
     (case out of Returned (Deferred p) \<Rightarrow> newEvents w' (snd (p w')) | _ \<Rightarrow> [])"

definition invocationEvents :: "(world, 'v) outcome \<times> world \<Rightarrow> world \<Rightarrow> world \<Rightarrow> event list" where
  "invocationEvents res w w' = newEvents w (snd res) @ settlementEvents (fst res) w'"

text \<open>What the caller supplied to the span resolver, read before the call.\<close>

definition suppliedSampling :: "ref option \<Rightarrow> world \<Rightarrow> js_value" where
  "suppliedSampling spanOption w =
     (case spanOption of
        None \<Rightarrow> JUndefined
      | Some r \<Rightarrow> (case attributes (readOptions w r) of
                    None \<Rightarrow> JUndefined
                  | Some a \<Rightarrow> get_prop (readAttributes w a) samplingKey))"

definition suppliedLinks :: "ref option \<Rightarrow> world \<Rightarrow> link list option" where
  "suppliedLinks spanOption w =
     (case spanOption of None \<Rightarrow> None | Some r \<Rightarrow> links (readOptions w r))"

text \<open>What the sampling rule leaves of a supplied value: a truthy value as it is.\<close>

definition keptSampling :: "js_value \<Rightarrow> js_value" where
  "keptSampling v = (if truthy v then v else JBool False)"

text \<open>A world with nothing in it, to build examples from.\<close>

definition initialWorld :: world where
  "initialWorld =
     \<lparr>optionsStore = Map.empty, attributesStore = Map.empty, nextRef = 0, activeSpan = None,
      nextId = 0, traceLog = [], callerFile = ''app.ts'', tracingMode = NaturalSyncAsync\<rparr>"

section \<open>Example worlds and stated properties\<close>

definition suppliedWorld :: "js_value \<Rightarrow> world" where
  "suppliedWorld v =
     initialWorld\<lparr>optionsStore := [0 \<mapsto> \<lparr>attributes = Some 0, root = None, links = None\<rparr>],
                  attributesStore := [0 \<mapsto> [(samplingKey, v)]],
                  nextRef := 1\<rparr>"



definition linkedOptionsWorld :: world where
  "linkedOptionsWorld =
     initialWorld\<lparr>optionsStore := [0 \<mapsto> emptyOptions\<lparr>links := Some [Link (SpanContext 7 8)]\<rparr>],
                  nextRef := 1\<rparr>"

definition activeWorld :: world where
  "activeWorld = initialWorld\<lparr>activeSpan := Some (Span (SpanContext 0 1)), nextId := 2\<rparr>"

text \<open>
  The events that the settlement of a call writes on its span, and the release that
  follows them. A call that never settles writes nothing.
\<close>

definition statusEvents :: "span \<Rightarrow> 'v settlement \<Rightarrow> event list" where
  "statusEvents sp st =
     (case st of
        Fulfilled v \<Rightarrow> [SetStatus sp StatusOK None]
      | Rejected error \<Rightarrow> [SetStatus sp StatusERROR (err_message error), RecordException sp error]
      | Pending \<Rightarrow> [])"

definition releaseEvents :: "span \<Rightarrow> bool \<Rightarrow> 'v settlement \<Rightarrow> event list" where
  "releaseEvents sp createdSpan st =
     (case st of Pending \<Rightarrow> [] | _ \<Rightarrow> if createdSpan then [SpanEnd sp] else [])"

text \<open>The event that starts a given span.\<close>

fun isStartOf :: "span \<Rightarrow> event \<Rightarrow> bool" where
  "isStartOf sp (StartSpan t n opts s) = (s = sp)"
| "isStartOf sp e = False"

text \<open>How a completion of the callable settles, at once or later.\<close>

definition settlementOf :: "'v completion \<Rightarrow> 'v settlement" where
  "settlementOf c =
     (case c of Returns (Plain v) \<Rightarrow> Fulfilled v | Returns (Promise st) \<Rightarrow> st | Throws e \<Rightarrow> Rejected e)"

text \<open>How the value a wrapper handed back settles in a later state, if it is a promise.\<close>

definition settlesAs :: "('s, 'v) outcome \<Rightarrow> 's \<Rightarrow> 'v settlement option" where
  "settlesAs out s' = (case out of Returned (Deferred p) \<Rightarrow> Some (fst (p s')) | _ \<Rightarrow> None)"

text \<open>The start mode and the gating predicate that the options of a wrapper resolve to.\<close>

definition startModeOf :: "'a TraceDecoratorOptions \<Rightarrow> StartMode" where
  "startModeOf options =
     (case startMode options of
        Some m \<Rightarrow> m
      | None \<Rightarrow> if createNewSpan options = Some True then CreateChild else Reuse)"

definition shouldTrace :: "'a TraceDecoratorOptions \<Rightarrow> 'a \<Rightarrow> world \<Rightarrow> bool" where
  "shouldTrace options args w =
     (case traceOnlyIf options of
        Some (GateFn p) \<Rightarrow> p args (getCurrentSpan w)
      | Some (GateBool b) \<Rightarrow> b
      | None \<Rightarrow> True)"

definition gatingEvents :: "'a TraceDecoratorOptions \<Rightarrow> event list" where
  "gatingEvents options =
     (case traceOnlyIf options of Some (GateFn p) \<Rightarrow> [Called CbTraceOnlyIf] | _ \<Rightarrow> [])"

text \<open>Example callables, options and worlds.\<close>

definition noOptions :: "unit TraceDecoratorOptions" where
  "noOptions =
     \<lparr>spanName = None, staticAttributes = None, dynamicAttributes = None, moduleName = None,
      startMode = None, traceOnlyIf = None, createNewSpan = None\<rparr>"

definition kaputt :: js_error where
  "kaputt = \<lparr>err_id = 1, err_name = Some ''Error'', err_message = Some ''kaputt''\<rparr>"

definition boom :: "(unit, int) callable" where
  "boom = \<lparr>fn_name = ''boom'', fn_apply = (\<lambda>args cur. Throws kaputt)\<rparr>"


definition seven :: "(unit, int) callable" where
  "seven = \<lparr>fn_name = ''seven'', fn_apply = (\<lambda>args cur. Returns (Plain 7))\<rparr>"

definition legacyWorld :: world where
  "legacyWorld = initialWorld\<lparr>tracingMode := LegacyAlwaysPromise\<rparr>"

definition gatedOff :: "unit TraceDecoratorOptions" where
  "gatedOff = noOptions\<lparr>traceOnlyIf := Some (GateFn (\<lambda>args cur. False))\<rparr>"
















definition latency :: metric_config where
  "latency =
     \<lparr>cfg_name = ''latency'', cfg_help = ''request latency'', cfg_labelNames = None,
      cfg_collect = False, cfg_buckets = None, cfg_percentiles = None\<rparr>"


section \<open>The sampling rule and the span resolver\<close>

lemma map_of_set_prop: "map_of (set_prop k v obj) = (map_of obj)(k \<mapsto> v)"
  by (simp add: set_prop_def update_conv')

lemma truthy_get_prop: "truthy (get_prop obj k) \<Longrightarrow> map_of obj k = Some (get_prop obj k)"
  by (cases "map_of obj k") (simp_all add: get_prop_def)

lemma ensureOptions_None:
  "ensureOptions None w =
     (Suc (nextRef w),
      w\<lparr>attributesStore := (attributesStore w)(nextRef w \<mapsto> []),
        optionsStore := (optionsStore w)(Suc (nextRef w) \<mapsto> emptyOptions\<lparr>attributes := Some (nextRef w)\<rparr>),
        nextRef := Suc (Suc (nextRef w))\<rparr>)"
  by (simp add: ensureOptions_def newAttributes_def newOptions_def)

lemma ensureOptions_Some: "ensureOptions (Some r) w = (r, w)"
  by (simp add: ensureOptions_def)

lemma ensureAttributes_missing:
  "attributes (readOptions w r) = None \<Longrightarrow>
   ensureAttributes r w =
     (nextRef w,
      w\<lparr>attributesStore := (attributesStore w)(nextRef w \<mapsto> []),
        nextRef := Suc (nextRef w),
        optionsStore := (optionsStore w)(r \<mapsto> (readOptions w r)\<lparr>attributes := Some (nextRef w)\<rparr>)\<rparr>)"
  by (simp add: ensureAttributes_def newAttributes_def readOptions_def)

lemma ensureAttributes_present:
  "attributes (readOptions w r) = Some a \<Longrightarrow> ensureAttributes r w = (a, w)"
  by (simp add: ensureAttributes_def)

lemma defaultSampling_frame:
  "optionsStore (defaultSampling a w) = optionsStore w \<and> nextRef (defaultSampling a w) = nextRef w \<and>
   activeSpan (defaultSampling a w) = activeSpan w \<and> nextId (defaultSampling a w) = nextId w \<and>
   traceLog (defaultSampling a w) = traceLog w \<and> callerFile (defaultSampling a w) = callerFile w \<and>
   tracingMode (defaultSampling a w) = tracingMode w"
  by (simp add: defaultSampling_def)

lemma defaultSampling_stored:
  "\<exists>obj. attributesStore (defaultSampling a w) a = Some obj \<and>
         map_of obj samplingKey = Some (keptSampling (get_prop (readAttributes w a) samplingKey))"
proof (cases "truthy (get_prop (readAttributes w a) samplingKey)")
  case True
  then obtain obj where "attributesStore w a = Some obj"
    by (cases "attributesStore w a") (auto simp: readAttributes_def get_prop_def)
  with True show ?thesis
    by (simp add: defaultSampling_def keptSampling_def readAttributes_def truthy_get_prop)
next
  case False
  then show ?thesis
    by (simp add: defaultSampling_def keptSampling_def map_of_set_prop)
qed

lemma setSamplingRule_None:
  "setSamplingRule None w =
     (Suc (nextRef w),
      w\<lparr>attributesStore := (attributesStore w)(nextRef w \<mapsto> [(samplingKey, JBool False)]),
        optionsStore := (optionsStore w)(Suc (nextRef w) \<mapsto> emptyOptions\<lparr>attributes := Some (nextRef w)\<rparr>),
        nextRef := Suc (Suc (nextRef w))\<rparr>)"
  by (simp add: setSamplingRule_def ensureOptions_None ensureAttributes_def readOptions_def
      defaultSampling_def readAttributes_def get_prop_def set_prop_def)

lemma setSamplingRule_missing:
  "attributes (readOptions w r) = None \<Longrightarrow>
   setSamplingRule (Some r) w =
     (r,
      w\<lparr>attributesStore := (attributesStore w)(nextRef w \<mapsto> [(samplingKey, JBool False)]),
        nextRef := Suc (nextRef w),
        optionsStore := (optionsStore w)(r \<mapsto> (readOptions w r)\<lparr>attributes := Some (nextRef w)\<rparr>)\<rparr>)"
  by (simp add: setSamplingRule_def ensureOptions_Some ensureAttributes_missing
      defaultSampling_def readAttributes_def get_prop_def set_prop_def)

lemma setSamplingRule_present:
  "attributes (readOptions w r) = Some a \<Longrightarrow>
   setSamplingRule (Some r) w = (r, defaultSampling a w)"
  by (simp add: setSamplingRule_def ensureOptions_Some ensureAttributes_present)

lemma readOptions_defaultSampling [simp]: "readOptions (defaultSampling a w) r = readOptions w r"
  by (simp add: readOptions_def defaultSampling_frame)

lemma setSamplingRule_frame:
  "setSamplingRule so w = (r, w') \<Longrightarrow>
     activeSpan w' = activeSpan w \<and> nextId w' = nextId w \<and> traceLog w' = traceLog w \<and>
     callerFile w' = callerFile w \<and> tracingMode w' = tracingMode w"
proof (cases so)
  case None
  assume "setSamplingRule so w = (r, w')"
  with None show ?thesis by (auto simp: setSamplingRule_None)
next
  case (Some r0)
  assume h: "setSamplingRule so w = (r, w')"
  show ?thesis
  proof (cases "attributes (readOptions w r0)")
    case None
    with h Some show ?thesis by (auto simp: setSamplingRule_missing)
  next
    case (Some a)
    with h \<open>so = Some r0\<close> show ?thesis by (auto simp: setSamplingRule_present defaultSampling_frame)
  qed
qed

lemma setSamplingRule_passed:
  assumes "setSamplingRule so w = (r, w')"
  shows "\<exists>a obj. attributes (readOptions w' r) = Some a \<and> attributesStore w' a = Some obj \<and>
           map_of obj samplingKey = Some (keptSampling (suppliedSampling so w)) \<and>
           links (readOptions w' r) = suppliedLinks so w"
proof (cases so)
  case None
  with assms show ?thesis
    by (auto simp: setSamplingRule_None readOptions_def emptyOptions_def keptSampling_def
        suppliedSampling_def suppliedLinks_def)
next
  case (Some r0)
  show ?thesis
  proof (cases "attributes (readOptions w r0)")
    case None
    with assms Some show ?thesis
      by (auto simp: setSamplingRule_missing readOptions_def emptyOptions_def keptSampling_def
        suppliedSampling_def suppliedLinks_def get_prop_def split: option.splits)
  next
    case (Some a)
    with assms \<open>so = Some r0\<close> have eq: "r = r0" "w' = defaultSampling a w"
      by (auto simp: setSamplingRule_present)
    from defaultSampling_stored[of a w] obtain obj where
      "attributesStore (defaultSampling a w) a = Some obj"
      "map_of obj samplingKey = Some (keptSampling (get_prop (readAttributes w a) samplingKey))"
      by blast
    with Some eq \<open>so = Some r0\<close> show ?thesis
      by (simp add: suppliedSampling_def suppliedLinks_def)
  qed
qed

lemma snapshot_root_links [simp]:
  "root (snapshot opts w) = root opts" "links (snapshot opts w) = links opts"
  by (simp_all add: snapshot_def)

lemma getSpan_created:
  assumes c: "snd (fst (getSpan n so mode mn w))"
  shows "\<exists>t opts obj s w'. getSpan n so mode mn w = ((s, True), w') \<and>
           traceLog w' = traceLog w @ [StartSpan t n opts s] \<and>
           attributes opts = Some obj \<and>
           map_of obj samplingKey = Some (keptSampling (suppliedSampling so w))"
proof -
  obtain r w1 where rw: "setSamplingRule so w = (r, w1)" by (cases "setSamplingRule so w")
  from setSamplingRule_passed[OF rw] obtain a obj where
    a: "attributes (readOptions w1 r) = Some a" "attributesStore w1 a = Some obj"
       "map_of obj samplingKey = Some (keptSampling (suppliedSampling so w))" by blast
  from setSamplingRule_frame[OF rw] have fr: "traceLog w1 = traceLog w" by simp
  show ?thesis
    using c a fr rw
    by (auto simp: getSpan_def Let_def startSpan_def emit_def snapshot_def
             split: option.splits StartMode.splits if_splits)
qed

lemma getCurrentSpanOrCreateNew_created:
  assumes c: "snd (fst (getCurrentSpanOrCreateNew n so cr mn w))"
  shows "\<exists>t opts obj s w'. getCurrentSpanOrCreateNew n so cr mn w = ((s, True), w') \<and>
           traceLog w' = traceLog w @ [StartSpan t n opts s] \<and>
           attributes opts = Some obj \<and>
           map_of obj samplingKey = Some (keptSampling (suppliedSampling so w))"
proof -
  obtain r w1 where rw: "setSamplingRule so w = (r, w1)" by (cases "setSamplingRule so w")
  from setSamplingRule_passed[OF rw] obtain a obj where
    a: "attributes (readOptions w1 r) = Some a" "attributesStore w1 a = Some obj"
       "map_of obj samplingKey = Some (keptSampling (suppliedSampling so w))" by blast
  from setSamplingRule_frame[OF rw] have fr: "traceLog w1 = traceLog w" by simp
  show ?thesis
    using c a fr rw
    by (auto simp: getCurrentSpanOrCreateNew_def Let_def startSpan_def emit_def snapshot_def
             split: option.splits if_splits)
qed

text \<open>
  Claim C8, as the code has it. Whenever \<^verbatim>\<open>Traces.getSpan\<close> or
  \<^verbatim>\<open>Traces.getCurrentSpanOrCreateNew\<close> creates a span, the tracer is called once, and the
  options it receives carry the attribute \<^verbatim>\<open>otel.collector.sampling.keep\<close>: with the
  caller's value when that value is truthy, and with \<^verbatim>\<open>false\<close> in every other case (no
  options, no attributes, no such key, or a falsy value).
\<close>

theorem sampling_keep_default_unless_truthy:
  "(snd (fst (getSpan n so mode mn w)) \<longrightarrow>
      (\<exists>t opts obj. traceLog (snd (getSpan n so mode mn w)) =
                       traceLog w @ [StartSpan t n opts (fst (fst (getSpan n so mode mn w)))] \<and>
                     attributes opts = Some obj \<and>
                     map_of obj samplingKey =
                       Some (if truthy (suppliedSampling so w) then suppliedSampling so w else JBool False))) \<and>
   (snd (fst (getCurrentSpanOrCreateNew n so cr mn w)) \<longrightarrow>
      (\<exists>t opts obj. traceLog (snd (getCurrentSpanOrCreateNew n so cr mn w)) =
                       traceLog w @ [StartSpan t n opts (fst (fst (getCurrentSpanOrCreateNew n so cr mn w)))] \<and>
                     attributes opts = Some obj \<and>
                     map_of obj samplingKey =
                       Some (if truthy (suppliedSampling so w) then suppliedSampling so w else JBool False)))"
proof (intro conjI impI)
  assume "snd (fst (getSpan n so mode mn w))"
  from getSpan_created[OF this] show "\<exists>t opts obj. traceLog (snd (getSpan n so mode mn w)) =
                       traceLog w @ [StartSpan t n opts (fst (fst (getSpan n so mode mn w)))] \<and>
                     attributes opts = Some obj \<and>
                     map_of obj samplingKey =
                       Some (if truthy (suppliedSampling so w) then suppliedSampling so w else JBool False)"
    by (auto simp: keptSampling_def)
next
  assume "snd (fst (getCurrentSpanOrCreateNew n so cr mn w))"
  from getCurrentSpanOrCreateNew_created[OF this]
  show "\<exists>t opts obj. traceLog (snd (getCurrentSpanOrCreateNew n so cr mn w)) =
                       traceLog w @ [StartSpan t n opts (fst (fst (getCurrentSpanOrCreateNew n so cr mn w)))] \<and>
                     attributes opts = Some obj \<and>
                     map_of obj samplingKey =
                       Some (if truthy (suppliedSampling so w) then suppliedSampling so w else JBool False)"
    by (auto simp: keptSampling_def)
qed

lemmas resolver_eval = getSpan_def setSamplingRule_def ensureOptions_def ensureAttributes_def
  defaultSampling_def readOptions_def readAttributes_def get_prop_def set_prop_def startSpan_def
  snapshot_def emit_def initialWorld_def newAttributes_def newOptions_def emptyOptions_def Let_def

text \<open>
  Claim C8 as stated fails: a caller who supplies the attribute with the value \<open>0\<close> does
  not find that value preserved; the tracer receives \<^verbatim>\<open>false\<close>.
\<close>

theorem sampling_keep_falsy_counterexample:
  "suppliedSampling (Some 0) (suppliedWorld (JNum 0)) = JNum 0 \<and>
   traceLog (snd (getSpan ''job'' (Some 0) (Some CreateChild) (Some ''m'') (suppliedWorld (JNum 0)))) =
     [StartSpan ''m'' ''job''
        \<lparr>attributes = Some [(samplingKey, JBool False)], root = None, links = None\<rparr>
        (Span (SpanContext 0 1))]"
  by (simp add: resolver_eval getCurrentSpanOrCreateNew_def suppliedWorld_def suppliedSampling_def)

text \<open>
  The statement for C8 at a concrete call, where the caller supplied \<^verbatim>\<open>true\<close>.
\<close>

theorem sampling_keep_default_unless_truthy_witness:
  "snd (fst (getSpan ''job'' (Some 0) (Some CreateChild) (Some ''m'') (suppliedWorld (JBool True)))) \<and>
   snd (fst (getCurrentSpanOrCreateNew ''job'' (Some 0) None (Some ''m'') (suppliedWorld (JBool True)))) \<and>
   (\<exists>t opts obj.
      traceLog (snd (getSpan ''job'' (Some 0) (Some CreateChild) (Some ''m'') (suppliedWorld (JBool True)))) =
        traceLog (suppliedWorld (JBool True)) @
          [StartSpan t ''job'' opts
             (fst (fst (getSpan ''job'' (Some 0) (Some CreateChild) (Some ''m'') (suppliedWorld (JBool True)))))] \<and>
      attributes opts = Some obj \<and> map_of obj samplingKey = Some (JBool True)) \<and>
   (\<exists>t opts obj.
      traceLog (snd (getCurrentSpanOrCreateNew ''job'' (Some 0) None (Some ''m'') (suppliedWorld (JBool True)))) =
        traceLog (suppliedWorld (JBool True)) @
          [StartSpan t ''job'' opts
             (fst (fst (getCurrentSpanOrCreateNew ''job'' (Some 0) None (Some ''m'') (suppliedWorld (JBool True)))))] \<and>
      attributes opts = Some obj \<and> map_of obj samplingKey = Some (JBool True))"
proof -
  have c1: "snd (fst (getSpan ''job'' (Some 0) (Some CreateChild) (Some ''m'') (suppliedWorld (JBool True))))"
    by (simp add: resolver_eval getCurrentSpanOrCreateNew_def suppliedWorld_def suppliedSampling_def)
  have c2: "snd (fst (getCurrentSpanOrCreateNew ''job'' (Some 0) None (Some ''m'') (suppliedWorld (JBool True))))"
    by (simp add: resolver_eval getCurrentSpanOrCreateNew_def suppliedWorld_def suppliedSampling_def)
  have v: "suppliedSampling (Some 0) (suppliedWorld (JBool True)) = JBool True"
    by (simp add: resolver_eval getCurrentSpanOrCreateNew_def suppliedWorld_def suppliedSampling_def)
  from sampling_keep_default_unless_truthy
         [of "''job''" "Some 0" "Some CreateChild" "Some ''m''" "suppliedWorld (JBool True)" None]
       c1 c2 v
  show ?thesis by simp
qed









text \<open>
  Claim C5, as the code has it. A call of \<^verbatim>\<open>Traces.getSpan\<close> with mode
  \<^verbatim>\<open>newTraceWithLink\<close> always creates a span, started with \<^verbatim>\<open>root: true\<close>. When a span is
  active, the options carry exactly one link, to the span context of the active span,
  and the trace id of the new span differs from that of the active span (whose ids the
  backend issued earlier). When no span is active, the links are those of the caller's
  options, unchanged: none when the caller gave none.
\<close>

theorem newTraceWithLink_root_and_links:
  "\<exists>t opts s w'. getSpan n so (Some NewTraceWithLink) mn w = ((s, True), w') \<and>
      traceLog w' = traceLog w @ [StartSpan t n opts s] \<and>
      root opts = Some True \<and>
      (case activeSpan w of
         Some active \<Rightarrow>
           links opts = Some [Link (spanContext active)] \<and>
           (traceId (spanContext active) < nextId w \<longrightarrow>
              traceId (spanContext s) \<noteq> traceId (spanContext active))
       | None \<Rightarrow> links opts = suppliedLinks so w)"
proof -
  obtain r w1 where rw: "setSamplingRule so w = (r, w1)" by (cases "setSamplingRule so w")
  from setSamplingRule_passed[OF rw] have l: "links (readOptions w1 r) = suppliedLinks so w" by blast
  from setSamplingRule_frame[OF rw] have fr: "traceLog w1 = traceLog w" "activeSpan w1 = activeSpan w"
    "nextId w1 = nextId w" by simp_all
  show ?thesis
    using l fr rw
    by (auto simp: getSpan_def Let_def startSpan_def emit_def snapshot_def split: option.splits)
qed

text \<open>
  Claim C5 as stated fails: with no active span, a caller whose options carry a link gets
  a span started with that link, not with no links.
\<close>

theorem newTraceWithLink_no_links_counterexample:
  "activeSpan linkedOptionsWorld = None \<and>
   traceLog (snd (getSpan ''job'' (Some 0) (Some NewTraceWithLink) (Some ''m'') linkedOptionsWorld)) =
     [StartSpan ''m'' ''job''
        \<lparr>attributes = Some [(samplingKey, JBool False)], root = Some True,
         links = Some [Link (SpanContext 7 8)]\<rparr>
        (Span (SpanContext 0 1))]"
  by (simp add: getSpan_def setSamplingRule_def ensureOptions_def ensureAttributes_def
      defaultSampling_def readOptions_def readAttributes_def get_prop_def set_prop_def startSpan_def
      snapshot_def emit_def linkedOptionsWorld_def initialWorld_def newAttributes_def
      emptyOptions_def Let_def)

text \<open>
  The statement for C5 at a concrete call with an active span.
\<close>

theorem newTraceWithLink_root_and_links_witness:
  "activeSpan activeWorld = Some (Span (SpanContext 0 1)) \<and>
   traceId (spanContext (Span (SpanContext 0 1))) < nextId activeWorld \<and>
   (\<exists>t opts s w'. getSpan ''job'' None (Some NewTraceWithLink) None activeWorld = ((s, True), w') \<and>
      traceLog w' = traceLog activeWorld @ [StartSpan t ''job'' opts s] \<and>
      root opts = Some True \<and>
      links opts = Some [Link (SpanContext 0 1)] \<and>
      traceId (spanContext s) \<noteq> 0)"
proof -
  have a: "activeSpan activeWorld = Some (Span (SpanContext 0 1))"
    by (simp add: activeWorld_def initialWorld_def)
  have b: "traceId (spanContext (Span (SpanContext 0 1))) < nextId activeWorld"
    by (simp add: activeWorld_def initialWorld_def)
  from newTraceWithLink_root_and_links[of "''job''" None None activeWorld] a b
  show ?thesis by auto
qed

section \<open>The tracing wrapper\<close>

lemma newEvents_append: "traceLog w' = traceLog w @ es \<Longrightarrow> newEvents w w' = es"
  by (simp add: newEvents_def)

lemma newEvents_same [simp]: "newEvents w w = []"
  by (simp add: newEvents_def)

lemmas promise_defs = with_local_def finally_p_def catch_p_def then_p_def settled_def
  onFulfilled_def onRejected_def endSpan_def promiseResolve_def promiseReject_def

lemma tracedChain_run:
  "with_local False
     (finally_p (catch_p (then_p (settled st) (onFulfilled sp)) (onRejected sp)) (endSpan sp c)) w' =
   (st, w'\<lparr>traceLog := traceLog w' @ statusEvents sp st @ releaseEvents sp c st\<rparr>)"
  by (cases st) (simp_all add: promise_defs emit_def statusEvents_def releaseEvents_def)

lemma tracedCall_promise:
  "fn_apply fn args (Some sp) = Returns (Promise st) \<Longrightarrow>
   tracedCall fn co sp c args w =
     (Returned (Deferred (with_local False
        (finally_p (catch_p (then_p (settled st) (onFulfilled sp)) (onRejected sp)) (endSpan sp c)))),
      emit (Called CbOriginal) w)"
  by (simp add: tracedCall_def)

lemma tracedCall_plain:
  "fn_apply fn args (Some sp) = Returns (Plain v) \<Longrightarrow>
   tracedCall fn co sp c args w =
     (Returned (if co then Deferred (settled (Fulfilled v)) else Value v),
      w\<lparr>traceLog := traceLog w @ Called CbOriginal # statusEvents sp (Fulfilled v)
                                   @ releaseEvents sp c (Fulfilled v)\<rparr>)"
  by (simp add: tracedCall_def promise_defs emit_def statusEvents_def releaseEvents_def)

lemma tracedCall_throws:
  "fn_apply (fn :: ('a, 'v) callable) args (Some sp) = Throws e \<Longrightarrow>
   tracedCall fn co sp c args w =
     (if co then Returned (Deferred (settled (Rejected e))) else Raised e,
      w\<lparr>traceLog := traceLog w @ Called CbOriginal # statusEvents sp (Rejected e :: 'v settlement)
                                   @ releaseEvents sp c (Rejected e :: 'v settlement)\<rparr>)"
  by (simp add: tracedCall_def promise_defs emit_def statusEvents_def releaseEvents_def)

lemma tracedCall_events:
  "invocationEvents (tracedCall fn co sp c args w) w w' =
     Called CbOriginal # statusEvents sp (settlementOf (fn_apply fn args (Some sp)))
       @ releaseEvents sp c (settlementOf (fn_apply fn args (Some sp)))"
proof (cases "fn_apply fn args (Some sp)")
  case (Returns res)
  show ?thesis
  proof (cases res)
    case (Plain v)
    with Returns show ?thesis
      by (simp add: tracedCall_plain invocationEvents_def settlementEvents_def newEvents_def
          settlementOf_def settled_def)
  next
    case (Promise st)
    with Returns show ?thesis
      by (simp add: tracedCall_promise tracedChain_run invocationEvents_def settlementEvents_def
          newEvents_def settlementOf_def emit_def)
  qed
next
  case (Throws e)
  then show ?thesis
    by (simp add: tracedCall_throws invocationEvents_def settlementEvents_def newEvents_def
        settlementOf_def settled_def)
qed

lemma getSpan_reuse_active:
  "activeSpan w = Some act \<Longrightarrow> mode = None \<or> mode = Some Reuse \<Longrightarrow>
   getSpan n so mode mn w = ((act, False), snd (setSamplingRule so w))"
proof -
  assume a: "activeSpan w = Some act" and m: "mode = None \<or> mode = Some Reuse"
  obtain r w1 where rw: "setSamplingRule so w = (r, w1)" by (cases "setSamplingRule so w")
  from setSamplingRule_frame[OF rw] a have "activeSpan w1 = Some act" by simp
  with m rw show ?thesis by (auto simp: getSpan_def)
qed

lemma getSpan_log:
  "\<exists>pre. traceLog (snd (getSpan n so mode mn w)) = traceLog w @ pre \<and>
         (\<forall>e \<in> set pre. \<not> isSpanEnd e \<and> \<not> isSettleEffect e) \<and>
         (snd (fst (getSpan n so mode mn w)) \<longleftrightarrow>
            (\<exists>e \<in> set pre. isStartOf (fst (fst (getSpan n so mode mn w))) e))"
proof -
  obtain r w1 where rw: "setSamplingRule so w = (r, w1)" by (cases "setSamplingRule so w")
  from setSamplingRule_frame[OF rw] have fr: "traceLog w1 = traceLog w" by simp
  show ?thesis
    using fr rw
    by (auto simp: getSpan_def Let_def startSpan_def emit_def split: option.splits)
qed

lemma withTracing_not_traced:
  "\<not> shouldTrace options args w \<Longrightarrow>
   withTracing fn options w0 args w =
     (case fn_apply fn args (activeSpan w) of
        Throws error \<Rightarrow> Raised error
      | Returns res \<Rightarrow>
          Returned (if tracingMode w0 = LegacyAlwaysPromise then promiseResolve res else asReturned res),
      w\<lparr>traceLog := traceLog w @ gatingEvents options @ [Called CbOriginal]\<rparr>)"
  by (auto simp: withTracing_def shouldTrace_def gatingEvents_def getCurrentSpan_def emit_def Let_def
           split: option.splits gating.splits completion.splits)

lemma buildSpanOptions_frame:
  "\<exists>pre. traceLog (snd (buildSpanOptions fn options args w)) = traceLog w @ pre \<and>
         (\<forall>e \<in> set pre. \<not> isSpanEnd e \<and> \<not> isSettleEffect e \<and> (\<forall>sp. \<not> isStartOf sp e))"
  "activeSpan (snd (buildSpanOptions fn options args w)) = activeSpan w"
  by (auto simp: buildSpanOptions_def newAttributes_def newOptions_def emit_def Let_def
           split: option.splits)

lemma gatingEvents_calls:
  "\<forall>e \<in> set (gatingEvents options). \<not> isSpanEnd e \<and> \<not> isSettleEffect e \<and> (\<forall>sp. \<not> isStartOf sp e)"
  by (auto simp: gatingEvents_def split: option.splits gating.splits)

lemma withTracing_traced:
  assumes g: "shouldTrace options args w"
  shows "\<exists>sp c w3 pre.
           withTracing fn options w0 args w =
             tracedCall fn (tracingMode w0 = LegacyAlwaysPromise) sp c args w3 \<and>
           traceLog w3 = traceLog w @ pre \<and>
           (\<forall>e \<in> set pre. \<not> isSpanEnd e \<and> \<not> isSettleEffect e) \<and>
           (c \<longleftrightarrow> (\<exists>e \<in> set pre. isStartOf sp e)) \<and>
           (\<forall>act. activeSpan w = Some act \<and> startModeOf options = Reuse \<longrightarrow> sp = act \<and> \<not> c)"
proof -
  define wg where "wg = w\<lparr>traceLog := traceLog w @ gatingEvents options\<rparr>"
  define w2 where "w2 = snd (buildSpanOptions fn options args wg)"
  define so where "so = fst (buildSpanOptions fn options args wg)"
  define n where "n = (case spanName options of
                         Some n \<Rightarrow> n
                       | None \<Rightarrow> if fn_name fn \<noteq> [] then fn_name fn else ''anonymous'')"
  define mn where "mn = (case moduleName options of Some m \<Rightarrow> m | None \<Rightarrow> callerFile w0)"
  define res where "res = getSpan n (Some so) (Some (startModeOf options)) (Some mn) w2"
  have eq: "withTracing fn options w0 args w =
          tracedCall fn (tracingMode w0 = LegacyAlwaysPromise) (fst (fst res)) (snd (fst res)) args (snd res)"
    using g
    by (auto simp: withTracing_def shouldTrace_def gatingEvents_def getCurrentSpan_def emit_def Let_def
          wg_def w2_def so_def n_def mn_def res_def startModeOf_def
          split: option.splits gating.splits prod.splits)
  note gl = gatingEvents_calls[of options]
  from buildSpanOptions_frame[of fn options args wg] obtain pre1 where
    p1: "traceLog w2 = traceLog wg @ pre1"
        "\<forall>e \<in> set pre1. \<not> isSpanEnd e \<and> \<not> isSettleEffect e \<and> (\<forall>sp. \<not> isStartOf sp e)"
    and a2: "activeSpan w2 = activeSpan wg"
    unfolding w2_def by blast
  from getSpan_log[of n "Some so" "Some (startModeOf options)" "Some mn" w2] obtain pre2 where
    p2: "traceLog (snd res) = traceLog w2 @ pre2" "\<forall>e \<in> set pre2. \<not> isSpanEnd e \<and> \<not> isSettleEffect e"
        "snd (fst res) \<longleftrightarrow> (\<exists>e \<in> set pre2. isStartOf (fst (fst res)) e)"
    unfolding res_def by blast
  have lg: "traceLog (snd res) = traceLog w @ (gatingEvents options @ pre1 @ pre2)"
    using p1 p2 by (simp add: wg_def)
  have al: "\<forall>e \<in> set (gatingEvents options @ pre1 @ pre2). \<not> isSpanEnd e \<and> \<not> isSettleEffect e"
    using gl p1 p2 by auto
  have st: "snd (fst res) \<longleftrightarrow> (\<exists>e \<in> set (gatingEvents options @ pre1 @ pre2). isStartOf (fst (fst res)) e)"
    using gl p1(2) p2(3) by auto
  have ru: "\<forall>act. activeSpan w = Some act \<and> startModeOf options = Reuse \<longrightarrow>
              fst (fst res) = act \<and> \<not> snd (fst res)"
  proof (intro allI impI)
    fix act assume h: "activeSpan w = Some act \<and> startModeOf options = Reuse"
    then have "activeSpan w2 = Some act" using a2 by (simp add: wg_def)
    from getSpan_reuse_active[OF this, of "Some Reuse" n "Some so" "Some mn"] h
    show "fst (fst res) = act \<and> \<not> snd (fst res)" by (simp add: res_def)
  qed
  from eq lg al st ru show ?thesis by blast
qed

lemma tracedCall_log:
  "traceLog (snd (tracedCall fn co sp c args w)) =
     traceLog w @ newEvents w (snd (tracedCall fn co sp c args w))"
proof (cases "fn_apply fn args (Some sp)")
  case (Returns res)
  then show ?thesis
    by (cases res) (simp_all add: tracedCall_plain tracedCall_promise newEvents_def emit_def)
next
  case (Throws e)
  then show ?thesis by (simp add: tracedCall_throws newEvents_def)
qed

lemma invocationEvents_shift:
  assumes "traceLog w3 = traceLog w @ pre"
  shows "invocationEvents (tracedCall fn co sp c args w3) w w' =
           pre @ invocationEvents (tracedCall fn co sp c args w3) w3 w'"
proof -
  have "traceLog (snd (tracedCall fn co sp c args w3)) =
          traceLog w @ pre @ newEvents w3 (snd (tracedCall fn co sp c args w3))"
    using tracedCall_log[of fn co sp c args w3] assms by simp
  then have "newEvents w (snd (tracedCall fn co sp c args w3)) =
          pre @ newEvents w3 (snd (tracedCall fn co sp c args w3))"
    by (rule newEvents_append)
  then show ?thesis by (simp add: invocationEvents_def)
qed

lemma withTracing_traced_events:
  assumes g: "shouldTrace options args w"
  shows "\<exists>sp c pre.
           invocationEvents (withTracing fn options w0 args w) w w' =
             pre @ Called CbOriginal # statusEvents sp (settlementOf (fn_apply fn args (Some sp)))
                 @ releaseEvents sp c (settlementOf (fn_apply fn args (Some sp))) \<and>
           (\<forall>e \<in> set pre. \<not> isSpanEnd e \<and> \<not> isSettleEffect e) \<and>
           (c \<longleftrightarrow> (\<exists>e \<in> set pre. isStartOf sp e)) \<and>
           (\<forall>act. activeSpan w = Some act \<and> startModeOf options = Reuse \<longrightarrow> sp = act \<and> \<not> c) \<and>
           (\<forall>st. fn_apply fn args (Some sp) = Returns (Promise st) \<longrightarrow>
              settlesAs (fst (withTracing fn options w0 args w)) w' = Some st \<and>
              settlementEvents (fst (withTracing fn options w0 args w)) w' =
                statusEvents sp st @ releaseEvents sp c st)"
proof -
  from withTracing_traced[OF g, of fn w0] obtain sp c w3 pre where
    h: "withTracing fn options w0 args w =
             tracedCall fn (tracingMode w0 = LegacyAlwaysPromise) sp c args w3"
       "traceLog w3 = traceLog w @ pre"
       "\<forall>e \<in> set pre. \<not> isSpanEnd e \<and> \<not> isSettleEffect e"
       "c \<longleftrightarrow> (\<exists>e \<in> set pre. isStartOf sp e)"
       "\<forall>act. activeSpan w = Some act \<and> startModeOf options = Reuse \<longrightarrow> sp = act \<and> \<not> c"
    by blast
  have "invocationEvents (withTracing fn options w0 args w) w w' =
          invocationEvents (tracedCall fn (tracingMode w0 = LegacyAlwaysPromise) sp c args w3) w w'"
    using h(1) by simp
  also have "\<dots> = pre @ invocationEvents (tracedCall fn (tracingMode w0 = LegacyAlwaysPromise) sp c args w3) w3 w'"
    by (rule invocationEvents_shift[OF h(2)])
  also have "\<dots> = pre @ Called CbOriginal # statusEvents sp (settlementOf (fn_apply fn args (Some sp)))
                 @ releaseEvents sp c (settlementOf (fn_apply fn args (Some sp)))"
    by (simp add: tracedCall_events)
  finally have ev: "invocationEvents (withTracing fn options w0 args w) w w' =
             pre @ Called CbOriginal # statusEvents sp (settlementOf (fn_apply fn args (Some sp)))
                 @ releaseEvents sp c (settlementOf (fn_apply fn args (Some sp)))" .
  have pr: "\<forall>st. fn_apply fn args (Some sp) = Returns (Promise st) \<longrightarrow>
              settlesAs (fst (withTracing fn options w0 args w)) w' = Some st \<and>
              settlementEvents (fst (withTracing fn options w0 args w)) w' =
                statusEvents sp st @ releaseEvents sp c st"
    using h(1)
    by (simp add: tracedCall_promise tracedChain_run settlesAs_def settlementEvents_def newEvents_def)
  from ev h(3,4,5) pr show ?thesis by blast
qed

lemma withTracing_untraced_events:
  assumes g: "\<not> shouldTrace options args w"
  shows "invocationEvents (withTracing fn options w0 args w) w w' = gatingEvents options @ [Called CbOriginal]"
proof (cases "fn_apply fn args (activeSpan w)")
  case (Returns res)
  then show ?thesis
    using g
    by (cases res)
       (simp_all add: withTracing_not_traced invocationEvents_def settlementEvents_def newEvents_def
          promiseResolve_def asReturned_def settled_def)
next
  case (Throws e)
  then show ?thesis
    using g
    by (simp add: withTracing_not_traced invocationEvents_def settlementEvents_def newEvents_def)
qed

lemma statusEvents_no_end: "filter isSpanEnd (statusEvents sp st) = []"
  by (cases st) (simp_all add: statusEvents_def)

lemma releaseEvents_ends:
  "filter isSpanEnd (releaseEvents sp c st) = releaseEvents sp c st"
  "length (releaseEvents sp c st) \<le> Suc 0"
  "\<not> c \<Longrightarrow> releaseEvents sp c st = []"
  by (cases st; simp add: releaseEvents_def)+

lemma filter_none: "(\<forall>e \<in> set es. \<not> P e) \<Longrightarrow> filter P es = []"
  by (induction es) auto

lemma gatingEvents_no_end: "filter isSpanEnd (gatingEvents options) = []"
  by (auto simp: gatingEvents_def split: option.splits gating.splits)

text \<open>
  Claim C1. With an active span, \<^verbatim>\<open>Traces.getSpan\<close> in mode \<^verbatim>\<open>reuse\<close> (given or by
  default) returns that span with \<^verbatim>\<open>createdSpan = false\<close>. A call of a callable wrapped with
  start mode \<^verbatim>\<open>reuse\<close>, made while a span is active, ends no span: not in the call and not
  in the settlement of the promise it returned, whatever the callable does (return,
  throw, resolve, reject). In every invocation \<^verbatim>\<open>end()\<close> is called at most once, and never
  when \<^verbatim>\<open>createdSpan\<close> is false.
\<close>

theorem reuse_never_ends_active_span:
  "(activeSpan w = Some act \<longrightarrow>
      fst (getSpan n so (Some Reuse) mn w) = (act, False) \<and>
      fst (getSpan n so None mn w) = (act, False)) \<and>
   (activeSpan w = Some act \<and> startModeOf options = Reuse \<longrightarrow>
      filter isSpanEnd (invocationEvents (withTracing fn options w0 args w) w w') = []) \<and>
   length (filter isSpanEnd (invocationEvents (withTracing fn options w0 args w) w w')) \<le> 1 \<and>
   length (filter isSpanEnd (invocationEvents (tracedCall fn co sp c args w) w w')) \<le> 1 \<and>
   (\<not> c \<longrightarrow> filter isSpanEnd (invocationEvents (tracedCall fn co sp c args w) w w') = [])"
proof -
  have a: "activeSpan w = Some act \<longrightarrow>
      fst (getSpan n so (Some Reuse) mn w) = (act, False) \<and>
      fst (getSpan n so None mn w) = (act, False)"
    by (simp add: getSpan_reuse_active)
  have b: "activeSpan w = Some act \<and> startModeOf options = Reuse \<longrightarrow>
      filter isSpanEnd (invocationEvents (withTracing fn options w0 args w) w w') = []"
  proof (cases "shouldTrace options args w")
    case True
    from withTracing_traced_events[OF True, of fn w0 w'] show ?thesis
      by (auto simp: statusEvents_no_end releaseEvents_ends filter_none)
  next
    case False
    then show ?thesis by (simp add: withTracing_untraced_events gatingEvents_no_end)
  qed
  have c: "length (filter isSpanEnd (invocationEvents (withTracing fn options w0 args w) w w')) \<le> 1"
  proof (cases "shouldTrace options args w")
    case True
    from withTracing_traced_events[OF True, of fn w0 w'] show ?thesis
      by (auto simp: statusEvents_no_end releaseEvents_ends filter_none)
  next
    case False
    then show ?thesis by (simp add: withTracing_untraced_events gatingEvents_no_end)
  qed
  have d: "length (filter isSpanEnd (invocationEvents (tracedCall fn co sp c args w) w w')) \<le> 1"
    by (simp add: tracedCall_events statusEvents_no_end releaseEvents_ends)
  have e: "\<not> c \<longrightarrow> filter isSpanEnd (invocationEvents (tracedCall fn co sp c args w) w w') = []"
    by (simp add: tracedCall_events statusEvents_no_end releaseEvents_ends)
  from a b c d e show ?thesis by blast
qed

text \<open>
  The statement for C1 at a concrete call: a throwing callable, wrapped with the default
  options, called while a span is active.
\<close>

theorem reuse_never_ends_active_span_witness:
  "activeSpan activeWorld = Some (Span (SpanContext 0 1)) \<and>
   startModeOf noOptions = Reuse \<and>
   fst (getSpan ''job'' None (Some Reuse) None activeWorld) = (Span (SpanContext 0 1), False) \<and>
   filter isSpanEnd (invocationEvents (withTracing boom noOptions initialWorld () activeWorld)
                       activeWorld activeWorld) = [] \<and>
   filter isSpanEnd (invocationEvents (tracedCall boom False (Span (SpanContext 0 1)) False () activeWorld)
                       activeWorld activeWorld) = []"
proof -
  have a: "activeSpan activeWorld = Some (Span (SpanContext 0 1))"
    by (simp add: activeWorld_def initialWorld_def)
  have m: "startModeOf noOptions = Reuse"
    by (simp add: startModeOf_def noOptions_def)
  from reuse_never_ends_active_span
         [where w = activeWorld and act = "Span (SpanContext 0 1)" and n = "''job''" and so = None
            and mn = None and options = noOptions and fn = boom and ?w0.0 = initialWorld
            and args = "()" and w' = activeWorld and co = False and sp = "Span (SpanContext 0 1)"
            and c = False]
       a m
  show ?thesis by simp
qed

text \<open>
  Claim C3. A callable that returns the immediate value \<open>x\<close>, wrapped while the mode is
  \<^verbatim>\<open>natural-sync-async\<close>, returns \<open>x\<close> itself; wrapped while the mode is
  \<^verbatim>\<open>legacy-always-promise\<close>, it returns a promise that is fulfilled with \<open>x\<close>. This holds
  with and without tracing of the call.
\<close>

theorem sync_result_natural_or_legacy:
  assumes "\<And>cur. fn_apply fn args cur = Returns (Plain x)"
  shows "(tracingMode w0 = NaturalSyncAsync \<longrightarrow>
            fst (withTracing fn options w0 args w) = Returned (Value x)) \<and>
         (tracingMode w0 = LegacyAlwaysPromise \<longrightarrow>
            (\<exists>p. fst (withTracing fn options w0 args w) = Returned (Deferred p) \<and>
                 (\<forall>w'. p w' = (Fulfilled x, w'))))"
proof (cases "shouldTrace options args w")
  case True
  from withTracing_traced[OF True, of fn w0] obtain sp c w3 where
    "withTracing fn options w0 args w = tracedCall fn (tracingMode w0 = LegacyAlwaysPromise) sp c args w3"
    by blast
  with assms show ?thesis
    by (auto simp: tracedCall_plain settled_def)
next
  case False
  with assms show ?thesis
    by (auto simp: withTracing_not_traced promiseResolve_def asReturned_def settled_def)
qed

text \<open>
  The statement for C3 at a concrete callable, in both modes.
\<close>

theorem sync_result_natural_or_legacy_witness:
  "(\<forall>cur. fn_apply seven () cur = Returns (Plain 7)) \<and>
   tracingMode initialWorld = NaturalSyncAsync \<and>
   fst (withTracing seven noOptions initialWorld () activeWorld) = Returned (Value 7) \<and>
   tracingMode legacyWorld = LegacyAlwaysPromise \<and>
   (\<exists>p. fst (withTracing seven noOptions legacyWorld () activeWorld) = Returned (Deferred p) \<and>
        (\<forall>w'. p w' = (Fulfilled 7, w')))"
proof -
  have f: "\<And>cur. fn_apply seven () cur = Returns (Plain 7)" by (simp add: seven_def)
  have n: "tracingMode initialWorld = NaturalSyncAsync" by (simp add: initialWorld_def)
  have l: "tracingMode legacyWorld = LegacyAlwaysPromise" by (simp add: legacyWorld_def initialWorld_def)
  from sync_result_natural_or_legacy[of seven "()" 7 initialWorld noOptions activeWorld, OF f]
       sync_result_natural_or_legacy[of seven "()" 7 legacyWorld noOptions activeWorld, OF f]
       f n l
  show ?thesis by simp
qed

text \<open>
  Claim C4, where the code departs from it. In legacy mode a call whose gating predicate
  is false and whose callable throws does not return a rejected promise: the error is
  raised, after the predicate and the callable have been called and with no span
  touched. The traced path of the same wrapper returns the rejected promise.
\<close>

theorem gated_off_legacy_throw_is_raised:
  "tracingMode legacyWorld = LegacyAlwaysPromise \<and>
   \<not> shouldTrace gatedOff () legacyWorld \<and>
   withTracing boom gatedOff legacyWorld () legacyWorld =
     (Raised kaputt, legacyWorld\<lparr>traceLog := [Called CbTraceOnlyIf, Called CbOriginal]\<rparr>) \<and>
   fst (withTracing boom noOptions legacyWorld () legacyWorld) = Returned (promiseReject kaputt)"
  by (simp add: withTracing_def tracedCall_def getCurrentSpan_def shouldTrace_def gatedOff_def
      noOptions_def boom_def legacyWorld_def initialWorld_def emit_def promiseReject_def
      endSpan_def buildSpanOptions_def newAttributes_def newOptions_def getSpan_def
      setSamplingRule_def ensureOptions_def ensureAttributes_def defaultSampling_def startSpan_def
      readOptions_def readAttributes_def Let_def split: prod.splits)


section \<open>The metric store\<close>

lemma setConfig_frame [simp]:
  "nextMetric (setConfig k n c s) = nextMetric s"
  "metricStore (setConfig k n c s) = metricStore s"
  "instancesOf k' (setConfig k n c s) = instancesOf k' s"
  by (cases k; cases k'; simp)+

lemma setInstance_frame [simp]:
  "nextMetric (setInstance k n r s) = nextMetric s"
  "metricStore (setInstance k n r s) = metricStore s"
  "instancesOf k (setInstance k n r s) n = Some r"
  by (cases k; simp)+

lemma recordCall_frame [simp]:
  "instancesOf k (recordCall r c s) = instancesOf k s"
  "labelNamesOf (recordCall r c s) r' = labelNamesOf s r'"
  by (cases k; auto simp: recordCall_def labelNamesOf_def split: option.splits)+


lemma configsOf_setConfig [simp]: "configsOf k (setConfig k n c s) n = Some c"
  by (cases k) simp_all





lemma callsOf_setInstance [simp]: "callsOf (setInstance k n r s) r' = callsOf s r'"
  by (simp add: callsOf_def)

lemma callsOf_setConfig [simp]: "callsOf (setConfig k n c s) r' = callsOf s r'"
  by (simp add: callsOf_def)




section \<open>The counter decorator\<close>











section \<open>The histogram decorator\<close>





section \<open>Ordering of settlement, release and result\<close>






section \<open>Label governance\<close>









lemma labelNamesOf_frame [simp]:
  "labelNamesOf (setInstance k n r s) r' = labelNamesOf s r'"
  "labelNamesOf (setConfig k n c s) r' = labelNamesOf s r'"
  by (simp_all add: labelNamesOf_def)







section \<open>Metrics.clear\<close>

text \<open>
  Claim C9. \<^verbatim>\<open>Metrics.clear\<close> empties the global register and the instance maps of
  counters, gauges and histograms; it leaves the summaries map, the four configuration
  maps and the metric objects as they were, so a summary created before is what
  \<^verbatim>\<open>getSummary\<close> returns afterwards.
\<close>

theorem clear_keeps_summaries_and_configs:
  "register (clear s) = Map.empty \<and> counters (clear s) = Map.empty \<and>
   gauges (clear s) = Map.empty \<and> histograms (clear s) = Map.empty \<and>
   summaries (clear s) = summaries s \<and>
   counterConfigs (clear s) = counterConfigs s \<and> gaugeConfigs (clear s) = gaugeConfigs s \<and>
   histogramConfigs (clear s) = histogramConfigs s \<and> summaryConfigs (clear s) = summaryConfigs s \<and>
   metricStore (clear s) = metricStore s \<and>
   (\<forall>name r. summaries s name = Some r \<longrightarrow> getSummary name (clear s) = (Some r, clear s))"
  by (simp add: clear_def getSummary_def getMetric_def)

text \<open>
  The statement for C9 at a summary that was registered and created before the reset.
\<close>

theorem clear_keeps_summaries_and_configs_witness:
  "summaries (snd (getSummary ''latency'' (registerSummary latency initialMetrics))) ''latency'' = Some 0 \<and>
   getSummary ''latency'' (clear (snd (getSummary ''latency'' (registerSummary latency initialMetrics)))) =
     (Some 0, clear (snd (getSummary ''latency'' (registerSummary latency initialMetrics)))) \<and>
   register (clear (snd (getSummary ''latency'' (registerSummary latency initialMetrics)))) ''latency'' = None"
proof -
  have m: "summaries (snd (getSummary ''latency'' (registerSummary latency initialMetrics))) ''latency'' = Some 0"
    by (simp add: getSummary_def getMetric_def registerSummary_def registerMetric_def newMetric_def
        latency_def initialMetrics_def)
  from clear_keeps_summaries_and_configs
         [of "snd (getSummary ''latency'' (registerSummary latency initialMetrics))"] m
  show ?thesis by simp
qed

end
